theory Spec2Isabelle
  imports Main "HOL-Library.Sublist"
begin

section \<open>Game day notifications: the formatter and the handler of lambda_function.py\<close>

subsection \<open>Decoded JSON values\<close>

text \<open>
  The handler works on what \<^verbatim>\<open>json.loads\<close> returns: \<^verbatim>\<open>None\<close>, a bool, an int, a
  float, a str, a list or a dict. A dict is an association list in insertion order (a
  decoded object holds each key once; \<open>map_of\<close> reads the first binding). Python's
  ints are unbounded, so they are \<open>int\<close>. Floats are not computed with anywhere in the
  program, only printed and tested for truth, so a float is carried as the text
  \<^verbatim>\<open>repr\<close> gives for it. A Python string is a \<open>string\<close>; a \<open>char\<close> stands for the
  code point of the same number (0 to 255).
\<close>

datatype json =
    JNull
  | JBool bool
  | JInt int
  | JFloat string
  | JStr string
  | JArr "json list"
  | JObj "(string \<times> json) list"

text \<open>The exceptions the formatter and the comprehensions around it can raise.\<close>

datatype pyerr =
    KeyError string
  | TypeError
  | AttributeError

subsection \<open>Python's \<^verbatim>\<open>str\<close> and \<^verbatim>\<open>repr\<close> on decoded values\<close>

text \<open>\<^verbatim>\<open>sep.join(parts)\<close>.\<close>

fun join :: "string \<Rightarrow> string list \<Rightarrow> string" where
  "join sep [] = []"
| "join sep [x] = x"
| "join sep (x # y # ys) = x @ sep @ join sep (y # ys)"

definition digit_char :: "nat \<Rightarrow> char" where
  "digit_char d = ''0123456789abcdef'' ! (d mod 16)"

fun str_nat :: "nat \<Rightarrow> string" where
  "str_nat n = (if n < 10 then [digit_char n] else str_nat (n div 10) @ [digit_char (n mod 10)])"

declare str_nat.simps [simp del]

definition str_int :: "int \<Rightarrow> string" where
  "str_int i = (if i < 0 then CHR ''-'' # str_nat (nat (- i)) else str_nat (nat i))"

text \<open>
  \<^verbatim>\<open>repr\<close> of a str: double quotes only when the text has a single quote and no
  double quote; the quote and the backslash are escaped, tab, newline and carriage
  return get their letter, a character that is not printable is written \<^verbatim>\<open>\xNN\<close>
  (below 256 these are the control characters, the no-break space and the soft hyphen).
\<close>

definition hex2 :: "nat \<Rightarrow> string" where
  "hex2 n = [digit_char (n div 16), digit_char (n mod 16)]"

definition repr_char :: "char \<Rightarrow> char \<Rightarrow> string" where
  "repr_char quote c =
     (let n = (of_char c :: nat) in
      if c = quote \<or> c = CHR 0x5C then [CHR 0x5C, c]
      else if n = 9 then [CHR 0x5C, CHR ''t'']
      else if n = 10 then [CHR 0x5C, CHR ''n'']
      else if n = 13 then [CHR 0x5C, CHR ''r'']
      else if n < 32 \<or> n = 127 then [CHR 0x5C, CHR ''x''] @ hex2 n
      else if n < 127 then [c]
      else if n \<le> 160 \<or> n = 173 then [CHR 0x5C, CHR ''x''] @ hex2 n
      else [c])"

definition repr_str :: "string \<Rightarrow> string" where
  "repr_str s =
     (let quote = (if CHR 0x27 \<in> set s \<and> CHR 0x22 \<notin> set s then CHR 0x22 else CHR 0x27)
      in [quote] @ concat (map (repr_char quote) s) @ [quote])"

primrec py_repr :: "json \<Rightarrow> string"
  and py_repr_items :: "json list \<Rightarrow> string list"
  and py_repr_pairs :: "(string \<times> json) list \<Rightarrow> string list"
  and py_repr_pair :: "string \<times> json \<Rightarrow> string"
where
  "py_repr JNull = ''None''"
| "py_repr (JBool b) = (if b then ''True'' else ''False'')"
| "py_repr (JInt i) = str_int i"
| "py_repr (JFloat t) = t"
| "py_repr (JStr s) = repr_str s"
| "py_repr (JArr xs) = ''['' @ join '', '' (py_repr_items xs) @ '']''"
| "py_repr (JObj kvs) = ''{'' @ join '', '' (py_repr_pairs kvs) @ ''}''"
| "py_repr_items [] = []"
| "py_repr_items (x # xs) = py_repr x # py_repr_items xs"
| "py_repr_pairs [] = []"
| "py_repr_pairs (kv # kvs) = py_repr_pair kv # py_repr_pairs kvs"
| "py_repr_pair (k, v) = repr_str k @ '': '' @ py_repr v"

text \<open>What an f-string field \<^verbatim>\<open>{x}\<close> puts in the text: \<^verbatim>\<open>str(x)\<close>.\<close>

definition py_str :: "json \<Rightarrow> string" where
  "py_str v = (case v of JStr s \<Rightarrow> s | _ \<Rightarrow> py_repr v)"

subsection \<open>Dictionary access, iteration, truth\<close>

text \<open>\<^verbatim>\<open>d.get(key, default)\<close> on a dict.\<close>

definition dict_get :: "(string \<times> json) list \<Rightarrow> string \<Rightarrow> json \<Rightarrow> json" where
  "dict_get d k dflt = (case map_of d k of None \<Rightarrow> dflt | Some v \<Rightarrow> v)"

text \<open>
  \<^verbatim>\<open>x.get(key, default)\<close> on any decoded value: only a dict has the method, every
  other value raises AttributeError.
\<close>

definition py_get :: "json \<Rightarrow> string \<Rightarrow> json \<Rightarrow> pyerr + json" where
  "py_get x k dflt = (case x of JObj d \<Rightarrow> Inr (dict_get d k dflt) | _ \<Rightarrow> Inl AttributeError)"

text \<open>
  \<^verbatim>\<open>x[key]\<close> with a str key: a dict gives the value or raises KeyError; a str or a
  list wants an integer index, the other values are not subscriptable (TypeError).
\<close>

definition py_getitem :: "json \<Rightarrow> string \<Rightarrow> pyerr + json" where
  "py_getitem x k =
     (case x of
        JObj d \<Rightarrow> (case map_of d k of None \<Rightarrow> Inl (KeyError k) | Some v \<Rightarrow> Inr v)
      | _ \<Rightarrow> Inl TypeError)"

text \<open>
  \<^verbatim>\<open>for q in x\<close>: a list gives its elements, a str its characters (each a str of
  length one), a dict its keys; the other values are not iterable (TypeError).
\<close>

definition py_iter :: "json \<Rightarrow> pyerr + json list" where
  "py_iter x =
     (case x of
        JArr xs \<Rightarrow> Inr xs
      | JStr s \<Rightarrow> Inr (map (\<lambda>c. JStr [c]) s)
      | JObj d \<Rightarrow> Inr (map (\<lambda>kv. JStr (fst kv)) d)
      | _ \<Rightarrow> Inl TypeError)"

text \<open>\<^verbatim>\<open>not x\<close> is true of None, False, zero, and the empty str, list and dict.\<close>

definition py_truthy :: "json \<Rightarrow> bool" where
  "py_truthy x =
     (case x of
        JNull \<Rightarrow> False
      | JBool b \<Rightarrow> b
      | JInt i \<Rightarrow> i \<noteq> 0
      | JFloat t \<Rightarrow> t \<noteq> ''0.0'' \<and> t \<noteq> ''-0.0''
      | JStr s \<Rightarrow> s \<noteq> []
      | JArr xs \<Rightarrow> xs \<noteq> []
      | JObj d \<Rightarrow> d \<noteq> [])"

text \<open>
  A list comprehension \<^verbatim>\<open>[f(x) for x in xs]\<close> whose body can raise: the elements are
  computed in order and the first exception ends the comprehension.
\<close>

fun comprehension :: "('a \<Rightarrow> pyerr + 'b) \<Rightarrow> 'a list \<Rightarrow> pyerr + 'b list" where
  "comprehension f [] = Inr []"
| "comprehension f (x # xs) =
     (case f x of
        Inl e \<Rightarrow> Inl e
      | Inr y \<Rightarrow> (case comprehension f xs of Inl e \<Rightarrow> Inl e | Inr ys \<Rightarrow> Inr (y # ys)))"

subsection \<open>format_game_data\<close>

text \<open>
  The f-string of one quarter, \<^verbatim>\<open>f"Q{q['Number']}: {q.get('AwayScore', 'N/A')}-{q.get('HomeScore', 'N/A')}"\<close>,
  its fields evaluated from left to right.
\<close>

definition quarter_entry :: "json \<Rightarrow> pyerr + string" where
  "quarter_entry q =
     (case py_getitem q ''Number'' of
        Inl e \<Rightarrow> Inl e
      | Inr n \<Rightarrow>
         (case py_get q ''AwayScore'' (JStr ''N/A'') of
            Inl e \<Rightarrow> Inl e
          | Inr a \<Rightarrow>
             (case py_get q ''HomeScore'' (JStr ''N/A'') of
                Inl e \<Rightarrow> Inl e
              | Inr h \<Rightarrow> Inr (''Q'' @ py_str n @ '': '' @ py_str a @ ''-'' @ py_str h))))"

text \<open>The newline that ends every line of the message.\<close>

definition nl :: string where
  "nl = [CHR 0x0A]"

text \<open>
  The score text of line 12,
  \<^verbatim>\<open>f"{game.get('AwayTeamScore', 'N/A')}-{game.get('HomeTeamScore', 'N/A')}"\<close>.
\<close>

definition final_score :: "(string \<times> json) list \<Rightarrow> string" where
  "final_score g =
     py_str (dict_get g ''AwayTeamScore'' (JStr ''N/A'')) @ ''-''
     @ py_str (dict_get g ''HomeTeamScore'' (JStr ''N/A''))"

definition format_game_data :: "json \<Rightarrow> pyerr + string" where
  "format_game_data game =
     (case game of
        JObj g \<Rightarrow>
          (let status = dict_get g ''Status'' (JStr ''Unknown'');
               away_team = dict_get g ''AwayTeam'' (JStr ''Unknown'');
               home_team = dict_get g ''HomeTeam'' (JStr ''Unknown'');
               score = final_score g;
               start_time = dict_get g ''DateTime'' (JStr ''Unknown'');
               channel = dict_get g ''Channel'' (JStr ''Unknown'');
               quarters = dict_get g ''Quarters'' (JArr [])
           in case py_iter quarters of
                Inl e \<Rightarrow> Inl e
              | Inr qs \<Rightarrow>
                 (case comprehension quarter_entry qs of
                    Inl e \<Rightarrow> Inl e
                  | Inr entries \<Rightarrow>
                     (let quarter_scores = join '', '' entries in
                      if status = JStr ''Final'' then
                        Inr (''Game Status: '' @ py_str status @ nl
                             @ py_str away_team @ '' vs '' @ py_str home_team @ nl
                             @ ''Final Score: '' @ score @ nl
                             @ ''Start Time: '' @ py_str start_time @ nl
                             @ ''Channel: '' @ py_str channel @ nl
                             @ ''Quarter Scores: '' @ quarter_scores @ nl)
                      else if status = JStr ''InProgress'' then
                        (let last_play = dict_get g ''LastPlay'' (JStr ''N/A'') in
                         Inr (''Game Status: '' @ py_str status @ nl
                              @ py_str away_team @ '' vs '' @ py_str home_team @ nl
                              @ ''Current Score: '' @ score @ nl
                              @ ''Last Play: '' @ py_str last_play @ nl
                              @ ''Channel: '' @ py_str channel @ nl))
                      else if status = JStr ''Scheduled'' then
                        Inr (''Game Status: '' @ py_str status @ nl
                             @ py_str away_team @ '' vs '' @ py_str home_team @ nl
                             @ ''Start Time: '' @ py_str start_time @ nl
                             @ ''Channel: '' @ py_str channel @ nl)
                      else
                        Inr (''Game Status: '' @ py_str status @ nl
                             @ py_str away_team @ '' vs '' @ py_str home_team @ nl
                             @ ''Details are unavailable at the moment.'' @ nl))))
      | _ \<Rightarrow> Inl AttributeError)"

subsection \<open>The world outside the handler\<close>

text \<open>
  The handler reads two environment variables and the clock, makes one HTTP request,
  decodes its body and publishes one message. Each of these is a field of the world the
  handler runs in; what the handler does to the world is the list of events it returns.

  An exception raised inside the \<^verbatim>\<open>try\<close> block of the fetch (lines 81 to 97) is
  classified by the first \<^verbatim>\<open>except\<close> clause that catches it: HTTPError (with
  \<^verbatim>\<open>e.code\<close> and the text of \<^verbatim>\<open>e.reason\<close>), any other URLError (with the text of
  \<^verbatim>\<open>e.reason\<close>), JSONDecodeError, and any other \<^verbatim>\<open>Exception\<close> (with the text of
  \<^verbatim>\<open>str(e)\<close>). In the same way an exception raised by the publish call is a
  ClientError (with its \<^verbatim>\<open>e.response\<close>, the parsed error reply: a dict that need not
  have an \<^verbatim>\<open>Error\<close> entry, nor a \<^verbatim>\<open>Message\<close> inside it) or any other
  \<^verbatim>\<open>Exception\<close> (with the text of \<^verbatim>\<open>str(e)\<close>).
\<close>

datatype fetch_exn =
    HTTPError int string
  | URLError string
  | JSONDecodeError
  | OtherFetchException string

datatype publish_exn =
    ClientError json
  | OtherPublishException string

text \<open>
  \<open>getenv\<close> is \<^verbatim>\<open>os.getenv\<close>; \<open>utc_now\<close> is the clock in seconds since
  1970-01-01T00:00 UTC; \<open>urlopen_read\<close> is \<^verbatim>\<open>urllib.request.urlopen(url)\<close> followed
  by \<^verbatim>\<open>response.read().decode()\<close>; \<open>json_loads\<close> is \<^verbatim>\<open>json.loads\<close>;
  \<open>sns_publish\<close> is \<^verbatim>\<open>sns_client.publish\<close> with its TopicArn, Message and Subject.
\<close>

record world =
  getenv :: "string \<Rightarrow> string option"
  utc_now :: int
  urlopen_read :: "string \<Rightarrow> fetch_exn + string"
  json_loads :: "string \<Rightarrow> fetch_exn + json"
  sns_publish :: "string \<Rightarrow> string \<Rightarrow> string \<Rightarrow> publish_exn + unit"

text \<open>
  What the handler does, in order: a line printed, the decoded data printed by
  \<^verbatim>\<open>print(json.dumps(data, indent=4))\<close> (kept as the data), the SNS client created,
  the HTTP request sent to a URL, a message published (TopicArn, Message, Subject).
\<close>

datatype event =
    Print string
  | PrintJson json
  | Boto3Client string
  | UrlOpen string
  | SnsPublish string string string

fun http_calls :: "event list \<Rightarrow> string list" where
  "http_calls [] = []"
| "http_calls (UrlOpen url # es) = url # http_calls es"
| "http_calls (e # es) = http_calls es"

fun publish_calls :: "event list \<Rightarrow> (string \<times> string \<times> string) list" where
  "publish_calls [] = []"
| "publish_calls (SnsPublish arn msg subj # es) = (arn, msg, subj) # publish_calls es"
| "publish_calls (e # es) = publish_calls es"

text \<open>The dict the handler returns.\<close>

record response =
  statusCode :: int
  body :: string

subsection \<open>The date of the request\<close>

text \<open>
  \<^verbatim>\<open>(utc_now - timedelta(hours=6)).strftime("%Y-%m-%d")\<close>: the calendar date of the
  day that holds the instant six hours before the clock. The day number (days since
  1970-01-01) is turned into year, month and day of the proleptic Gregorian calendar by
  counting from 0000-03-01 in eras of 400 years. A running clock is past the year 1000
  and before the year 10000, where \<^verbatim>\<open>%Y\<close> is the year's four digits.
\<close>

definition civil_from_days :: "int \<Rightarrow> int \<times> int \<times> int" where
  "civil_from_days days =
     (let z = days + 719468;
          era = z div 146097;
          doe = z - era * 146097;
          yoe = (doe - doe div 1460 + doe div 36524 - doe div 146096) div 365;
          doy = doe - (365 * yoe + yoe div 4 - yoe div 100);
          mp = (5 * doy + 2) div 153;
          d = doy - (153 * mp + 2) div 5 + 1;
          m = (if mp < 10 then mp + 3 else mp - 9);
          y = yoe + era * 400 + (if m \<le> 2 then 1 else 0)
      in (y, m, d))"

definition pad2 :: "int \<Rightarrow> string" where
  "pad2 i = (if i < 10 then CHR ''0'' # str_int i else str_int i)"

definition today_date :: "int \<Rightarrow> string" where
  "today_date now =
     (let central_time = now - 6 * 3600;
          ymd = civil_from_days (central_time div 86400)
      in str_int (fst ymd) @ ''-'' @ pad2 (fst (snd ymd)) @ ''-'' @ pad2 (snd (snd ymd)))"

definition api_url :: "string \<Rightarrow> string \<Rightarrow> string" where
  "api_url date key =
     ''https://api.sportsdata.io/v3/nba/scores/json/GamesByDate/'' @ date @ ''?key='' @ key"

subsection \<open>lambda_handler\<close>

text \<open>
  \<^verbatim>\<open>not v\<close> on what \<^verbatim>\<open>os.getenv\<close> returns (None or a str), and the text an f-string
  makes of it.
\<close>

definition env_missing :: "string option \<Rightarrow> bool" where
  "env_missing v = (case v of None \<Rightarrow> True | Some s \<Rightarrow> s = [])"

definition env_str :: "string option \<Rightarrow> string" where
  "env_str v = (case v of None \<Rightarrow> ''None'' | Some s \<Rightarrow> s)"

text \<open>
  The handler returns the events it caused and either the response dict or the
  exception that left it. The \<^verbatim>\<open>event\<close> and \<^verbatim>\<open>context\<close> arguments are never read.
  Line 117 reads \<^verbatim>\<open>e.response['Error']['Message']\<close> inside the \<^verbatim>\<open>except\<close> clause, for
  the line it prints: an exception raised there is caught by no clause and leaves the
  handler.
\<close>

definition lambda_handler :: "world \<Rightarrow> event list \<times> (pyerr + response)" where
  "lambda_handler w =
     (let api_key = getenv w ''NBA_API_KEY'';
          sns_topic_arn = getenv w ''SNS_TOPIC_ARN''
      in
      if env_missing api_key \<or> env_missing sns_topic_arn then
        ([Print ''Error: Missing required environment variables.''],
         Inr \<lparr>statusCode = 500, body = ''Missing environment variables''\<rparr>)
      else
        (let date = today_date (utc_now w);
             url = api_url date (env_str api_key);
             t0 = [Boto3Client ''sns'', Print (''Fetching games for date: '' @ date), UrlOpen url];
             fetched =
               (case urlopen_read w url of
                  Inl e \<Rightarrow> Inl e
                | Inr text \<Rightarrow> json_loads w text)
         in
         case fetched of
           Inl (HTTPError code reason) \<Rightarrow>
             (t0 @ [Print (''HTTP Error: '' @ str_int code @ '' - '' @ reason)],
              Inr \<lparr>statusCode = code, body = ''HTTP Error: '' @ reason\<rparr>)
         | Inl (URLError reason) \<Rightarrow>
             (t0 @ [Print (''URL Error: '' @ reason)],
              Inr \<lparr>statusCode = 500, body = ''URL Error: '' @ reason\<rparr>)
         | Inl JSONDecodeError \<Rightarrow>
             (t0 @ [Print ''Error decoding JSON response.''],
              Inr \<lparr>statusCode = 500, body = ''Error decoding JSON response''\<rparr>)
         | Inl (OtherFetchException descr) \<Rightarrow>
             (t0 @ [Print (''Unexpected error: '' @ descr)],
              Inr \<lparr>statusCode = 500, body = ''Unexpected error: '' @ descr\<rparr>)
         | Inr data \<Rightarrow>
             (let t1 = t0 @ [Print ''Successfully fetched game data.'', PrintJson data] in
              if \<not> py_truthy data then
                (t1 @ [Print ''No games available for today.''],
                 Inr \<lparr>statusCode = 200, body = ''No games available for today.''\<rparr>)
              else
                (case py_iter data of
                   Inl e \<Rightarrow> (t1, Inl e)
                 | Inr games \<Rightarrow>
                    (case comprehension format_game_data games of
                       Inl e \<Rightarrow> (t1, Inl e)
                     | Inr messages \<Rightarrow>
                        (let final_message = join (nl @ ''---'' @ nl) messages;
                             arn = env_str sns_topic_arn;
                             t2 = t1 @ [SnsPublish arn final_message ''NBA Game Updates'']
                         in
                         case sns_publish w arn final_message ''NBA Game Updates'' of
                           Inr u \<Rightarrow>
                             (t2 @ [Print ''Message published to SNS successfully.''],
                              Inr \<lparr>statusCode = 200, body = ''Data processed and sent to SNS''\<rparr>)
                         | Inl (ClientError response) \<Rightarrow>
                             (case py_getitem response ''Error'' of
                                Inl e \<Rightarrow> (t2, Inl e)
                              | Inr error \<Rightarrow>
                                 (case py_getitem error ''Message'' of
                                    Inl e \<Rightarrow> (t2, Inl e)
                                  | Inr message \<Rightarrow>
                                     (t2 @ [Print (''Error publishing to SNS: '' @ py_str message)],
                                      Inr \<lparr>statusCode = 500, body = ''Error publishing to SNS''\<rparr>)))
                         | Inl (OtherPublishException descr) \<Rightarrow>
                             (t2 @ [Print (''Unexpected error while publishing to SNS: '' @ descr)],
                              Inr \<lparr>statusCode = 500, body = ''Unexpected error: '' @ descr\<rparr>)))))))"

subsection \<open>Example inputs\<close>

text \<open>
  Game records as the upstream API sends them: a finished game with one quarter, a game
  in progress, a scheduled game (whose start date reads 11-12), the same scheduled game
  with no scores yet, a game with a status the formatter has no branch for, and a
  finished game whose quarter record has no \<^verbatim>\<open>Number\<close>.
\<close>

definition final_game :: "(string \<times> json) list" where
  "final_game =
     [(''Status'', JStr ''Final''), (''AwayTeam'', JStr ''Lakers''), (''HomeTeam'', JStr ''Celtics''),
      (''AwayTeamScore'', JInt 101), (''HomeTeamScore'', JInt 99),
      (''DateTime'', JStr ''2024-01-01T19:00''), (''Channel'', JStr ''ESPN''),
      (''Quarters'', JArr [JObj [(''Number'', JInt 1), (''AwayScore'', JInt 25), (''HomeScore'', JInt 20)]])]"

definition in_progress_game :: "(string \<times> json) list" where
  "in_progress_game =
     [(''Status'', JStr ''InProgress''), (''AwayTeam'', JStr ''Lakers''), (''HomeTeam'', JStr ''Celtics''),
      (''AwayTeamScore'', JInt 54), (''HomeTeamScore'', JInt 50),
      (''LastPlay'', JStr ''Timeout''), (''Channel'', JStr ''ESPN'')]"

definition scheduled_game :: "(string \<times> json) list" where
  "scheduled_game =
     [(''Status'', JStr ''Scheduled''), (''AwayTeam'', JStr ''Lakers''), (''HomeTeam'', JStr ''Celtics''),
      (''AwayTeamScore'', JInt 11), (''HomeTeamScore'', JInt 12),
      (''DateTime'', JStr ''2024-11-12T19:00:00''), (''Channel'', JStr ''ESPN''),
      (''Quarters'', JArr [])]"

definition unscored_scheduled_game :: "(string \<times> json) list" where
  "unscored_scheduled_game =
     [(''Status'', JStr ''Scheduled''), (''AwayTeam'', JStr ''Lakers''), (''HomeTeam'', JStr ''Celtics''),
      (''AwayTeamScore'', JNull), (''HomeTeamScore'', JNull),
      (''DateTime'', JStr ''2024-11-12T19:00:00''), (''Channel'', JStr ''ESPN''),
      (''Quarters'', JArr [])]"

definition postponed_game :: "(string \<times> json) list" where
  "postponed_game =
     [(''Status'', JStr ''Postponed''), (''AwayTeam'', JStr ''Lakers''), (''HomeTeam'', JStr ''Celtics'')]"

definition numberless_quarter_game :: "(string \<times> json) list" where
  "numberless_quarter_game =
     [(''Status'', JStr ''Final''), (''AwayTeam'', JStr ''Lakers''), (''HomeTeam'', JStr ''Celtics''),
      (''AwayTeamScore'', JInt 101), (''HomeTeamScore'', JInt 99),
      (''DateTime'', JStr ''2024-01-01T19:00''), (''Channel'', JStr ''ESPN''),
      (''Quarters'', JArr [JObj [(''AwayScore'', JInt 25), (''HomeScore'', JInt 20)]])]"



text \<open>
  A world with both environment variables set, the clock at 2024-01-02T01:00 UTC (still
  2024-01-01 six hours to the west), an upstream that answers with the empty array and a
  topic that accepts every message; and a world whose upstream has one finished game and
  whose topic answers a publish call with a given outcome.
\<close>

definition example_env :: "string \<Rightarrow> string option" where
  "example_env k =
     (if k = ''NBA_API_KEY'' then Some ''secret''
      else if k = ''SNS_TOPIC_ARN'' then Some ''arn:aws:sns:us-east-1:123456789012:gd_topic''
      else None)"

definition example_world :: world where
  "example_world =
     \<lparr>getenv = example_env,
      utc_now = 1704157200,
      urlopen_read = (\<lambda>url. Inr ''[]''),
      json_loads = (\<lambda>text. Inr (JArr [])),
      sns_publish = (\<lambda>arn msg subj. Inr ())\<rparr>"

definition publish_world :: "publish_exn + unit \<Rightarrow> world" where
  "publish_world outcome =
     example_world\<lparr>urlopen_read := (\<lambda>url. Inr ''[{...}]''),
                   json_loads := (\<lambda>text. Inr (JArr [JObj final_game])),
                   sns_publish := (\<lambda>arn msg subj. outcome)\<rparr>"

section \<open>Properties\<close>

subsection \<open>Auxiliary facts\<close>

text \<open>The definitions a concrete game record is evaluated with.\<close>

lemmas eval_defs = format_game_data_def final_score_def dict_get_def py_iter_def quarter_entry_def
  py_getitem_def py_get_def py_str_def str_int_def str_nat.simps digit_char_def nl_def






text \<open>
  When the formatter returns, the game is a dict, its quarters could be iterated and
  every quarter gave an entry.
\<close>

lemma format_game_data_Inr:
  "format_game_data game = Inr out \<Longrightarrow>
     \<exists>g qs entries. game = JObj g
        \<and> py_iter (dict_get g ''Quarters'' (JArr [])) = Inr qs
        \<and> comprehension quarter_entry qs = Inr entries"
  unfolding format_game_data_def
  by (auto split: json.splits sum.splits simp: Let_def)

text \<open>The example clock, six hours to the west, reads 2024-01-01.\<close>

lemma today_date_example: "today_date 1704157200 = ''2024-01-01''"
  by code_simp

subsection \<open>The formatter\<close>

text \<open>
  C1. The claim: for every game record, \<^verbatim>\<open>format_game_data\<close> returns a string and
  never raises, a missing field of the record or of one of its quarter records being
  replaced by a placeholder. Every field is read with \<^verbatim>\<open>.get\<close> and a placeholder
  except the quarter's number, which line 19 reads with \<^verbatim>\<open>q['Number']\<close>: on a finished
  game whose only quarter record has the two scores and no number, the formatter raises
  KeyError instead of returning a string.
\<close>

theorem format_game_data_quarter_without_number:
  "format_game_data (JObj numberless_quarter_game) = Inl (KeyError ''Number'')"
  by (simp add: numberless_quarter_game_def format_game_data_def dict_get_def py_iter_def
      quarter_entry_def py_getitem_def)



text \<open>
  C7, as the code has it. For every game record whose status is \<^verbatim>\<open>Scheduled\<close>: the
  output of the formatter is the four lines of the Scheduled branch (status, matchup,
  start time, channel), with no score line, and the formatter gives the same result on
  every record that differs from this one only in the two score fields.
\<close>

theorem format_game_data_scheduled:
  assumes "map_of g ''Status'' = Some (JStr ''Scheduled'')"
  shows "(\<forall>out. format_game_data (JObj g) = Inr out \<longrightarrow>
            out = ''Game Status: Scheduled\<newline>''
                  @ py_str (dict_get g ''AwayTeam'' (JStr ''Unknown'')) @ '' vs ''
                  @ py_str (dict_get g ''HomeTeam'' (JStr ''Unknown''))
                  @ ''\<newline>Start Time: '' @ py_str (dict_get g ''DateTime'' (JStr ''Unknown''))
                  @ ''\<newline>Channel: '' @ py_str (dict_get g ''Channel'' (JStr ''Unknown''))
                  @ ''\<newline>'')
       \<and> (\<forall>g'. (\<forall>k. k \<noteq> ''AwayTeamScore'' \<and> k \<noteq> ''HomeTeamScore'' \<longrightarrow> map_of g' k = map_of g k)
              \<longrightarrow> format_game_data (JObj g') = format_game_data (JObj g))"
proof (intro conjI allI impI)
  have status: "dict_get g ''Status'' (JStr ''Unknown'') = JStr ''Scheduled''"
    using assms by (simp add: dict_get_def)
  {
    fix out assume ret: "format_game_data (JObj g) = Inr out"
    from format_game_data_Inr [OF ret] obtain qs entries
      where "py_iter (dict_get g ''Quarters'' (JArr [])) = Inr qs"
        and "comprehension quarter_entry qs = Inr entries" by auto
    then show "out = ''Game Status: Scheduled\<newline>''
                  @ py_str (dict_get g ''AwayTeam'' (JStr ''Unknown'')) @ '' vs ''
                  @ py_str (dict_get g ''HomeTeam'' (JStr ''Unknown''))
                  @ ''\<newline>Start Time: '' @ py_str (dict_get g ''DateTime'' (JStr ''Unknown''))
                  @ ''\<newline>Channel: '' @ py_str (dict_get g ''Channel'' (JStr ''Unknown''))
                  @ ''\<newline>''"
      using ret status by (simp add: format_game_data_def Let_def py_str_def nl_def)
  }
  {
    fix g'
    assume same: "\<forall>k. k \<noteq> ''AwayTeamScore'' \<and> k \<noteq> ''HomeTeamScore'' \<longrightarrow> map_of g' k = map_of g k"
    have eq: "dict_get g' k d = dict_get g k d"
      if "k \<noteq> ''AwayTeamScore''" and "k \<noteq> ''HomeTeamScore''" for k d
      using same that by (simp add: dict_get_def)
    have status': "dict_get g' ''Status'' (JStr ''Unknown'') = JStr ''Scheduled''"
      using status by (simp add: eq)
    show "format_game_data (JObj g') = format_game_data (JObj g)"
      using status status' by (simp add: format_game_data_def Let_def eq split: sum.splits)
  }
qed

text \<open>
  C7 at the scheduled game, whose score text is \<^verbatim>\<open>11-12\<close>, against the same game with
  no scores yet, whose score text is \<^verbatim>\<open>None-None\<close>: the two outputs are the same four
  lines.
\<close>

theorem format_game_data_scheduled_witness:
  "map_of scheduled_game ''Status'' = Some (JStr ''Scheduled'')
   \<and> py_str (dict_get scheduled_game ''AwayTeamScore'' (JStr ''N/A'')) @ ''-''
       @ py_str (dict_get scheduled_game ''HomeTeamScore'' (JStr ''N/A'')) = ''11-12''
   \<and> py_str (dict_get unscored_scheduled_game ''AwayTeamScore'' (JStr ''N/A'')) @ ''-''
       @ py_str (dict_get unscored_scheduled_game ''HomeTeamScore'' (JStr ''N/A'')) = ''None-None''
   \<and> format_game_data (JObj scheduled_game) = format_game_data (JObj unscored_scheduled_game)
   \<and> format_game_data (JObj unscored_scheduled_game) =
       Inr ''Game Status: Scheduled\<newline>Lakers vs Celtics\<newline>Start Time: 2024-11-12T19:00:00\<newline>Channel: ESPN\<newline>''"
proof -
  have st: "map_of scheduled_game ''Status'' = Some (JStr ''Scheduled'')"
    by (simp add: scheduled_game_def)
  have same: "\<forall>k. k \<noteq> ''AwayTeamScore'' \<and> k \<noteq> ''HomeTeamScore'' \<longrightarrow>
          map_of unscored_scheduled_game k = map_of scheduled_game k"
    by (simp add: scheduled_game_def unscored_scheduled_game_def)
  have out: "format_game_data (JObj scheduled_game) =
       Inr ''Game Status: Scheduled\<newline>Lakers vs Celtics\<newline>Start Time: 2024-11-12T19:00:00\<newline>Channel: ESPN\<newline>''"
    by (simp add: scheduled_game_def eval_defs)
  have sc: "py_str (dict_get scheduled_game ''AwayTeamScore'' (JStr ''N/A'')) @ ''-''
       @ py_str (dict_get scheduled_game ''HomeTeamScore'' (JStr ''N/A'')) = ''11-12''"
    and sc': "py_str (dict_get unscored_scheduled_game ''AwayTeamScore'' (JStr ''N/A'')) @ ''-''
       @ py_str (dict_get unscored_scheduled_game ''HomeTeamScore'' (JStr ''N/A'')) = ''None-None''"
    by (simp_all add: scheduled_game_def unscored_scheduled_game_def eval_defs)
  from format_game_data_scheduled [OF st] same
  have "format_game_data (JObj unscored_scheduled_game) = format_game_data (JObj scheduled_game)"
    by blast
  with st out sc sc' show ?thesis by simp
qed

text \<open>
  C7 as it is stated, that the score text never occurs in the output of a scheduled
  game, fails: with scores 11 and 12 and a start time on 2024-11-12, the score text
  \<^verbatim>\<open>11-12\<close> occurs in the start-time line.
\<close>

theorem scheduled_output_contains_score_text:
  "map_of scheduled_game ''Status'' = Some (JStr ''Scheduled'')
   \<and> py_str (dict_get scheduled_game ''AwayTeamScore'' (JStr ''N/A'')) @ ''-''
       @ py_str (dict_get scheduled_game ''HomeTeamScore'' (JStr ''N/A'')) = ''11-12''
   \<and> format_game_data (JObj scheduled_game) =
       Inr ''Game Status: Scheduled\<newline>Lakers vs Celtics\<newline>Start Time: 2024-11-12T19:00:00\<newline>Channel: ESPN\<newline>''
   \<and> sublist ''11-12''
       ''Game Status: Scheduled\<newline>Lakers vs Celtics\<newline>Start Time: 2024-11-12T19:00:00\<newline>Channel: ESPN\<newline>''"
proof -
  have "sublist ''11-12''
       (''Game Status: Scheduled\<newline>Lakers vs Celtics\<newline>Start Time: 2024-''
        @ ''11-12'' @ ''T19:00:00\<newline>Channel: ESPN\<newline>'')"
    by (rule sublist_appendI)
  then have sub: "sublist ''11-12''
       ''Game Status: Scheduled\<newline>Lakers vs Celtics\<newline>Start Time: 2024-11-12T19:00:00\<newline>Channel: ESPN\<newline>''"
    by simp
  have st: "map_of scheduled_game ''Status'' = Some (JStr ''Scheduled'')"
    by (simp add: scheduled_game_def)
  have sc: "py_str (dict_get scheduled_game ''AwayTeamScore'' (JStr ''N/A'')) @ ''-''
       @ py_str (dict_get scheduled_game ''HomeTeamScore'' (JStr ''N/A'')) = ''11-12''"
    by (simp add: scheduled_game_def eval_defs)
  have out: "format_game_data (JObj scheduled_game) =
       Inr ''Game Status: Scheduled\<newline>Lakers vs Celtics\<newline>Start Time: 2024-11-12T19:00:00\<newline>Channel: ESPN\<newline>''"
    by (simp add: scheduled_game_def eval_defs)
  from st sc out sub show ?thesis by simp
qed

text \<open>
  C9. Whatever the status, the output of the formatter begins with the line
  \<^verbatim>\<open>Game Status: {status}\<close> followed by the line \<^verbatim>\<open>{away_team} vs {home_team}\<close>,
  each ended by a newline character.
\<close>

theorem format_game_data_header:
  assumes "format_game_data game = Inr out"
  shows "\<exists>g. game = JObj g
           \<and> prefix (''Game Status: '' @ py_str (dict_get g ''Status'' (JStr ''Unknown''))
                     @ ''\<newline>''
                     @ py_str (dict_get g ''AwayTeam'' (JStr ''Unknown'')) @ '' vs ''
                     @ py_str (dict_get g ''HomeTeam'' (JStr ''Unknown''))
                     @ ''\<newline>'') out"
proof -
  from format_game_data_Inr [OF assms] obtain g qs entries
    where g: "game = JObj g"
      and it: "py_iter (dict_get g ''Quarters'' (JArr [])) = Inr qs"
      and co: "comprehension quarter_entry qs = Inr entries" by auto
  let ?h = "''Game Status: '' @ py_str (dict_get g ''Status'' (JStr ''Unknown''))
                     @ ''\<newline>''
                     @ py_str (dict_get g ''AwayTeam'' (JStr ''Unknown'')) @ '' vs ''
                     @ py_str (dict_get g ''HomeTeam'' (JStr ''Unknown''))
                     @ ''\<newline>''"
  have "\<exists>rest. out = ?h @ rest"
    using assms g it co
    by (auto simp: format_game_data_def Let_def nl_def split: if_splits)
  then have "prefix ?h out" by (auto simp: prefix_def)
  with g show ?thesis by blast
qed

text \<open>
  C9 at one game for each of the four branches (Final, InProgress, Scheduled and the
  fallback), with the outputs and their two first lines written out.
\<close>

theorem format_game_data_header_witness:
  "format_game_data (JObj final_game) =
     Inr ''Game Status: Final\<newline>Lakers vs Celtics\<newline>Final Score: 101-99\<newline>Start Time: 2024-01-01T19:00\<newline>Channel: ESPN\<newline>Quarter Scores: Q1: 25-20\<newline>''
   \<and> prefix ''Game Status: Final\<newline>Lakers vs Celtics\<newline>''
       ''Game Status: Final\<newline>Lakers vs Celtics\<newline>Final Score: 101-99\<newline>Start Time: 2024-01-01T19:00\<newline>Channel: ESPN\<newline>Quarter Scores: Q1: 25-20\<newline>''
   \<and> format_game_data (JObj in_progress_game) =
     Inr ''Game Status: InProgress\<newline>Lakers vs Celtics\<newline>Current Score: 54-50\<newline>Last Play: Timeout\<newline>Channel: ESPN\<newline>''
   \<and> prefix ''Game Status: InProgress\<newline>Lakers vs Celtics\<newline>''
       ''Game Status: InProgress\<newline>Lakers vs Celtics\<newline>Current Score: 54-50\<newline>Last Play: Timeout\<newline>Channel: ESPN\<newline>''
   \<and> format_game_data (JObj scheduled_game) =
     Inr ''Game Status: Scheduled\<newline>Lakers vs Celtics\<newline>Start Time: 2024-11-12T19:00:00\<newline>Channel: ESPN\<newline>''
   \<and> prefix ''Game Status: Scheduled\<newline>Lakers vs Celtics\<newline>''
       ''Game Status: Scheduled\<newline>Lakers vs Celtics\<newline>Start Time: 2024-11-12T19:00:00\<newline>Channel: ESPN\<newline>''
   \<and> format_game_data (JObj postponed_game) =
     Inr ''Game Status: Postponed\<newline>Lakers vs Celtics\<newline>Details are unavailable at the moment.\<newline>''
   \<and> prefix ''Game Status: Postponed\<newline>Lakers vs Celtics\<newline>''
       ''Game Status: Postponed\<newline>Lakers vs Celtics\<newline>Details are unavailable at the moment.\<newline>''"
proof -
  have f: "format_game_data (JObj final_game) =
     Inr ''Game Status: Final\<newline>Lakers vs Celtics\<newline>Final Score: 101-99\<newline>Start Time: 2024-01-01T19:00\<newline>Channel: ESPN\<newline>Quarter Scores: Q1: 25-20\<newline>''"
    by (simp add: final_game_def eval_defs)
  have i: "format_game_data (JObj in_progress_game) =
     Inr ''Game Status: InProgress\<newline>Lakers vs Celtics\<newline>Current Score: 54-50\<newline>Last Play: Timeout\<newline>Channel: ESPN\<newline>''"
    by (simp add: in_progress_game_def eval_defs)
  have s: "format_game_data (JObj scheduled_game) =
     Inr ''Game Status: Scheduled\<newline>Lakers vs Celtics\<newline>Start Time: 2024-11-12T19:00:00\<newline>Channel: ESPN\<newline>''"
    by (simp add: scheduled_game_def eval_defs)
  have p: "format_game_data (JObj postponed_game) =
     Inr ''Game Status: Postponed\<newline>Lakers vs Celtics\<newline>Details are unavailable at the moment.\<newline>''"
    by (simp add: postponed_game_def eval_defs)
  have hf: "''Game Status: '' @ py_str (dict_get final_game ''Status'' (JStr ''Unknown''))
              @ ''\<newline>'' @ py_str (dict_get final_game ''AwayTeam'' (JStr ''Unknown'')) @ '' vs ''
              @ py_str (dict_get final_game ''HomeTeam'' (JStr ''Unknown'')) @ ''\<newline>''
            = ''Game Status: Final\<newline>Lakers vs Celtics\<newline>''"
    and hi: "''Game Status: '' @ py_str (dict_get in_progress_game ''Status'' (JStr ''Unknown''))
              @ ''\<newline>'' @ py_str (dict_get in_progress_game ''AwayTeam'' (JStr ''Unknown'')) @ '' vs ''
              @ py_str (dict_get in_progress_game ''HomeTeam'' (JStr ''Unknown'')) @ ''\<newline>''
            = ''Game Status: InProgress\<newline>Lakers vs Celtics\<newline>''"
    and hs: "''Game Status: '' @ py_str (dict_get scheduled_game ''Status'' (JStr ''Unknown''))
              @ ''\<newline>'' @ py_str (dict_get scheduled_game ''AwayTeam'' (JStr ''Unknown'')) @ '' vs ''
              @ py_str (dict_get scheduled_game ''HomeTeam'' (JStr ''Unknown'')) @ ''\<newline>''
            = ''Game Status: Scheduled\<newline>Lakers vs Celtics\<newline>''"
    and hp: "''Game Status: '' @ py_str (dict_get postponed_game ''Status'' (JStr ''Unknown''))
              @ ''\<newline>'' @ py_str (dict_get postponed_game ''AwayTeam'' (JStr ''Unknown'')) @ '' vs ''
              @ py_str (dict_get postponed_game ''HomeTeam'' (JStr ''Unknown'')) @ ''\<newline>''
            = ''Game Status: Postponed\<newline>Lakers vs Celtics\<newline>''"
    by (simp_all add: final_game_def in_progress_game_def scheduled_game_def postponed_game_def
        dict_get_def py_str_def)
  from format_game_data_header [OF f] format_game_data_header [OF i]
    format_game_data_header [OF s] format_game_data_header [OF p]
  have "prefix ''Game Status: Final\<newline>Lakers vs Celtics\<newline>''
       ''Game Status: Final\<newline>Lakers vs Celtics\<newline>Final Score: 101-99\<newline>Start Time: 2024-01-01T19:00\<newline>Channel: ESPN\<newline>Quarter Scores: Q1: 25-20\<newline>''"
    and "prefix ''Game Status: InProgress\<newline>Lakers vs Celtics\<newline>''
       ''Game Status: InProgress\<newline>Lakers vs Celtics\<newline>Current Score: 54-50\<newline>Last Play: Timeout\<newline>Channel: ESPN\<newline>''"
    and "prefix ''Game Status: Scheduled\<newline>Lakers vs Celtics\<newline>''
       ''Game Status: Scheduled\<newline>Lakers vs Celtics\<newline>Start Time: 2024-11-12T19:00:00\<newline>Channel: ESPN\<newline>''"
    and "prefix ''Game Status: Postponed\<newline>Lakers vs Celtics\<newline>''
       ''Game Status: Postponed\<newline>Lakers vs Celtics\<newline>Details are unavailable at the moment.\<newline>''"
    unfolding hf [symmetric] hi [symmetric] hs [symmetric] hp [symmetric] by blast+
  with f i s p show ?thesis by simp
qed

subsection \<open>The handler\<close>

text \<open>
  C3. If the API key or the topic identifier is absent from the environment, the handler
  returns status 500 with the body \<^verbatim>\<open>Missing environment variables\<close>, and it makes no
  HTTP request and no publish call.
\<close>

theorem lambda_handler_config_absent:
  assumes "getenv w ''NBA_API_KEY'' = None \<or> getenv w ''SNS_TOPIC_ARN'' = None"
  shows "snd (lambda_handler w) = Inr \<lparr>statusCode = 500, body = ''Missing environment variables''\<rparr>
         \<and> http_calls (fst (lambda_handler w)) = []
         \<and> publish_calls (fst (lambda_handler w)) = []"
  using assms unfolding lambda_handler_def env_missing_def
  by (auto simp: Let_def)

text \<open>C3 at the example world with the topic identifier removed.\<close>

theorem lambda_handler_config_absent_witness:
  "(getenv (example_world\<lparr>getenv := example_env(''SNS_TOPIC_ARN'' := None)\<rparr>) ''NBA_API_KEY'' = None
     \<or> getenv (example_world\<lparr>getenv := example_env(''SNS_TOPIC_ARN'' := None)\<rparr>) ''SNS_TOPIC_ARN'' = None)
   \<and> snd (lambda_handler (example_world\<lparr>getenv := example_env(''SNS_TOPIC_ARN'' := None)\<rparr>))
       = Inr \<lparr>statusCode = 500, body = ''Missing environment variables''\<rparr>
   \<and> http_calls (fst (lambda_handler (example_world\<lparr>getenv := example_env(''SNS_TOPIC_ARN'' := None)\<rparr>))) = []"
  using lambda_handler_config_absent [of "example_world\<lparr>getenv := example_env(''SNS_TOPIC_ARN'' := None)\<rparr>"]
  by simp

text \<open>
  C4. If the decoded game list is the empty array, the handler returns status 200 with
  the body \<^verbatim>\<open>No games available for today.\<close> and makes no publish call.
\<close>

theorem lambda_handler_no_games:
  assumes "\<not> env_missing (getenv w ''NBA_API_KEY'')"
    and "\<not> env_missing (getenv w ''SNS_TOPIC_ARN'')"
    and "urlopen_read w (api_url (today_date (utc_now w)) (env_str (getenv w ''NBA_API_KEY''))) = Inr text"
    and "json_loads w text = Inr (JArr [])"
  shows "snd (lambda_handler w) = Inr \<lparr>statusCode = 200, body = ''No games available for today.''\<rparr>
         \<and> publish_calls (fst (lambda_handler w)) = []"
  using assms unfolding lambda_handler_def
  by (simp add: Let_def py_truthy_def)

text \<open>C4 at the example world, whose upstream answers with the empty array.\<close>

theorem lambda_handler_no_games_witness:
  "\<not> env_missing (getenv example_world ''NBA_API_KEY'')
   \<and> \<not> env_missing (getenv example_world ''SNS_TOPIC_ARN'')
   \<and> urlopen_read example_world
        (api_url (today_date (utc_now example_world)) (env_str (getenv example_world ''NBA_API_KEY''))) = Inr ''[]''
   \<and> json_loads example_world ''[]'' = Inr (JArr [])
   \<and> snd (lambda_handler example_world) = Inr \<lparr>statusCode = 200, body = ''No games available for today.''\<rparr>
   \<and> publish_calls (fst (lambda_handler example_world)) = []"
proof -
  have a: "\<not> env_missing (getenv example_world ''NBA_API_KEY'')"
    and b: "\<not> env_missing (getenv example_world ''SNS_TOPIC_ARN'')"
    by (simp_all add: example_world_def example_env_def env_missing_def)
  have c: "urlopen_read example_world
        (api_url (today_date (utc_now example_world)) (env_str (getenv example_world ''NBA_API_KEY''))) = Inr ''[]''"
    and d: "json_loads example_world ''[]'' = Inr (JArr [])"
    by (simp_all add: example_world_def)
  from lambda_handler_no_games [OF a b c d] a b c d show ?thesis by simp
qed

text \<open>
  C5. When the request fails with an HTTPError, the handler returns the upstream status
  code with the body \<^verbatim>\<open>HTTP Error: \<close> followed by the upstream reason; when it fails
  with another URLError, the handler returns status 500 with the body \<^verbatim>\<open>URL Error: \<close>
  followed by the reason. Neither case publishes.
\<close>

theorem lambda_handler_fetch_error:
  assumes "\<not> env_missing (getenv w ''NBA_API_KEY'')"
    and "\<not> env_missing (getenv w ''SNS_TOPIC_ARN'')"
    and "url = api_url (today_date (utc_now w)) (env_str (getenv w ''NBA_API_KEY''))"
  shows "(urlopen_read w url = Inl (HTTPError code reason) \<longrightarrow>
            snd (lambda_handler w) = Inr \<lparr>statusCode = code, body = ''HTTP Error: '' @ reason\<rparr>
            \<and> publish_calls (fst (lambda_handler w)) = [])
       \<and> (urlopen_read w url = Inl (URLError reason) \<longrightarrow>
            snd (lambda_handler w) = Inr \<lparr>statusCode = 500, body = ''URL Error: '' @ reason\<rparr>
            \<and> publish_calls (fst (lambda_handler w)) = [])"
  using assms unfolding lambda_handler_def
  by (simp add: Let_def)

text \<open>C5 at an upstream that answers 404 Not Found, and at one that times out.\<close>

theorem lambda_handler_fetch_error_witness:
  "\<not> env_missing (getenv example_world ''NBA_API_KEY'')
   \<and> \<not> env_missing (getenv example_world ''SNS_TOPIC_ARN'')
   \<and> urlopen_read (example_world\<lparr>urlopen_read := (\<lambda>url. Inl (HTTPError 404 ''Not Found''))\<rparr>)
        ''https://api.sportsdata.io/v3/nba/scores/json/GamesByDate/2024-01-01?key=secret''
       = Inl (HTTPError 404 ''Not Found'')
   \<and> snd (lambda_handler (example_world\<lparr>urlopen_read := (\<lambda>url. Inl (HTTPError 404 ''Not Found''))\<rparr>))
       = Inr \<lparr>statusCode = 404, body = ''HTTP Error: Not Found''\<rparr>
   \<and> urlopen_read (example_world\<lparr>urlopen_read := (\<lambda>url. Inl (URLError ''timed out''))\<rparr>)
        ''https://api.sportsdata.io/v3/nba/scores/json/GamesByDate/2024-01-01?key=secret''
       = Inl (URLError ''timed out'')
   \<and> snd (lambda_handler (example_world\<lparr>urlopen_read := (\<lambda>url. Inl (URLError ''timed out''))\<rparr>))
       = Inr \<lparr>statusCode = 500, body = ''URL Error: timed out''\<rparr>
   \<and> publish_calls (fst (lambda_handler (example_world\<lparr>urlopen_read := (\<lambda>url. Inl (URLError ''timed out''))\<rparr>))) = []"
proof -
  let ?u = "''https://api.sportsdata.io/v3/nba/scores/json/GamesByDate/2024-01-01?key=secret''"
  have a: "\<not> env_missing (getenv (example_world\<lparr>urlopen_read := f\<rparr>) ''NBA_API_KEY'')"
    and b: "\<not> env_missing (getenv (example_world\<lparr>urlopen_read := f\<rparr>) ''SNS_TOPIC_ARN'')"
    and c: "?u = api_url (today_date (utc_now (example_world\<lparr>urlopen_read := f\<rparr>)))
                   (env_str (getenv (example_world\<lparr>urlopen_read := f\<rparr>) ''NBA_API_KEY''))" for f
    by (simp_all add: example_world_def example_env_def env_missing_def env_str_def api_url_def
        today_date_example)
  from lambda_handler_fetch_error [OF a b c, of "\<lambda>url. Inl (HTTPError 404 ''Not Found'')" 404 "''Not Found''"]
    lambda_handler_fetch_error [OF a b c, of "\<lambda>url. Inl (URLError ''timed out'')" _ "''timed out''"]
    a [of "urlopen_read example_world"] b [of "urlopen_read example_world"]
  show ?thesis by simp
qed

text \<open>
  C6. If decoding the response body raises JSONDecodeError, the handler returns status
  500 with the body \<^verbatim>\<open>Error decoding JSON response\<close>; after the request it only prints
  the error line, so nothing is formatted and nothing is published.
\<close>

theorem lambda_handler_malformed_json:
  assumes "\<not> env_missing (getenv w ''NBA_API_KEY'')"
    and "\<not> env_missing (getenv w ''SNS_TOPIC_ARN'')"
    and "url = api_url (today_date (utc_now w)) (env_str (getenv w ''NBA_API_KEY''))"
    and "urlopen_read w url = Inr text"
    and "json_loads w text = Inl JSONDecodeError"
  shows "lambda_handler w =
           ([Boto3Client ''sns'', Print (''Fetching games for date: '' @ today_date (utc_now w)),
             UrlOpen url, Print ''Error decoding JSON response.''],
            Inr \<lparr>statusCode = 500, body = ''Error decoding JSON response''\<rparr>)
         \<and> publish_calls (fst (lambda_handler w)) = []"
  using assms unfolding lambda_handler_def
  by (simp add: Let_def)

text \<open>C6 at the example world with a body that does not decode.\<close>

theorem lambda_handler_malformed_json_witness:
  "\<not> env_missing (getenv example_world ''NBA_API_KEY'')
   \<and> \<not> env_missing (getenv example_world ''SNS_TOPIC_ARN'')
   \<and> urlopen_read (example_world\<lparr>json_loads := (\<lambda>text. Inl JSONDecodeError)\<rparr>)
        ''https://api.sportsdata.io/v3/nba/scores/json/GamesByDate/2024-01-01?key=secret'' = Inr ''[]''
   \<and> json_loads (example_world\<lparr>json_loads := (\<lambda>text. Inl JSONDecodeError)\<rparr>) ''[]'' = Inl JSONDecodeError
   \<and> lambda_handler (example_world\<lparr>json_loads := (\<lambda>text. Inl JSONDecodeError)\<rparr>) =
       ([Boto3Client ''sns'', Print ''Fetching games for date: 2024-01-01'',
         UrlOpen ''https://api.sportsdata.io/v3/nba/scores/json/GamesByDate/2024-01-01?key=secret'',
         Print ''Error decoding JSON response.''],
        Inr \<lparr>statusCode = 500, body = ''Error decoding JSON response''\<rparr>)"
proof -
  let ?w = "example_world\<lparr>json_loads := (\<lambda>text. Inl JSONDecodeError)\<rparr>"
  let ?u = "''https://api.sportsdata.io/v3/nba/scores/json/GamesByDate/2024-01-01?key=secret''"
  have a: "\<not> env_missing (getenv ?w ''NBA_API_KEY'')"
    and b: "\<not> env_missing (getenv ?w ''SNS_TOPIC_ARN'')"
    and c: "?u = api_url (today_date (utc_now ?w)) (env_str (getenv ?w ''NBA_API_KEY''))"
    and d: "urlopen_read ?w ?u = Inr ''[]''"
    and e: "json_loads ?w ''[]'' = Inl JSONDecodeError"
    and t: "today_date (utc_now ?w) = ''2024-01-01''"
    by (simp_all add: example_world_def example_env_def env_missing_def env_str_def api_url_def
        today_date_example)
  from lambda_handler_malformed_json [OF a b c d e] a b d e t show ?thesis by simp
qed

text \<open>
  What the handler does once it publishes: when the data is not empty and every game was
  formatted, it makes one publish call and then returns status 200 if the call returns,
  status 500 with the description if the call raises an exception other than ClientError,
  and, on a ClientError, status 500 with a fixed body provided that the response of the
  error has \<^verbatim>\<open>['Error']['Message']\<close>; otherwise the exception of that read leaves the
  handler.
\<close>

lemma lambda_handler_reaches_publish:
  assumes "\<not> env_missing (getenv w ''NBA_API_KEY'')"
    and "\<not> env_missing (getenv w ''SNS_TOPIC_ARN'')"
    and "urlopen_read w (api_url (today_date (utc_now w)) (env_str (getenv w ''NBA_API_KEY''))) = Inr text"
    and "json_loads w text = Inr data"
    and "py_truthy data"
    and "py_iter data = Inr games"
    and "comprehension format_game_data games = Inr messages"
    and "arn = env_str (getenv w ''SNS_TOPIC_ARN'')"
    and "final_message = join ''\<newline>---\<newline>'' messages"
  shows "snd (lambda_handler w) =
           (case sns_publish w arn final_message ''NBA Game Updates'' of
              Inr u \<Rightarrow> Inr \<lparr>statusCode = 200, body = ''Data processed and sent to SNS''\<rparr>
            | Inl (ClientError response) \<Rightarrow>
                (case py_getitem response ''Error'' of
                   Inl e \<Rightarrow> Inl e
                 | Inr error \<Rightarrow>
                    (case py_getitem error ''Message'' of
                       Inl e \<Rightarrow> Inl e
                     | Inr message \<Rightarrow>
                         Inr \<lparr>statusCode = 500, body = ''Error publishing to SNS''\<rparr>))
            | Inl (OtherPublishException descr) \<Rightarrow>
                Inr \<lparr>statusCode = 500, body = ''Unexpected error: '' @ descr\<rparr>)"
    and "publish_calls (fst (lambda_handler w)) = [(arn, final_message, ''NBA Game Updates'')]"
  using assms unfolding lambda_handler_def
  by (simp_all add: Let_def nl_def split: sum.splits publish_exn.splits)

text \<open>
  C8. The claim: every failure of the publish call is caught and reported, a delivery
  failure as status 500 with a fixed body, and none is raised past the handler. On a
  ClientError whose response has an error code and no message, line 117 raises KeyError
  while it builds the line it prints, inside the \<^verbatim>\<open>except\<close> clause: the handler, having
  made its one publish call, raises instead of returning the delivery-error result. A
  ClientError that has its message, any other exception and a call that returns are
  reported as the claim says.
\<close>

theorem lambda_handler_client_error_without_message:
  "snd (lambda_handler (publish_world
          (Inl (ClientError (JObj [(''Error'', JObj [(''Code'', JStr ''InternalError'')])])))))
     = Inl (KeyError ''Message'')
   \<and> publish_calls (fst (lambda_handler (publish_world
          (Inl (ClientError (JObj [(''Error'', JObj [(''Code'', JStr ''InternalError'')])]))))))
     = [(''arn:aws:sns:us-east-1:123456789012:gd_topic'',
         ''Game Status: Final\<newline>Lakers vs Celtics\<newline>Final Score: 101-99\<newline>Start Time: 2024-01-01T19:00\<newline>Channel: ESPN\<newline>Quarter Scores: Q1: 25-20\<newline>'',
         ''NBA Game Updates'')]
   \<and> snd (lambda_handler (publish_world
          (Inl (ClientError (JObj [(''Error'', JObj [(''Code'', JStr ''NotFound''),
                                                    (''Message'', JStr ''Topic does not exist'')])])))))
     = Inr \<lparr>statusCode = 500, body = ''Error publishing to SNS''\<rparr>
   \<and> snd (lambda_handler (publish_world (Inl (OtherPublishException ''Could not connect''))))
     = Inr \<lparr>statusCode = 500, body = ''Unexpected error: Could not connect''\<rparr>
   \<and> snd (lambda_handler (publish_world (Inr ())))
     = Inr \<lparr>statusCode = 200, body = ''Data processed and sent to SNS''\<rparr>"
proof -
  let ?msg = "''Game Status: Final\<newline>Lakers vs Celtics\<newline>Final Score: 101-99\<newline>Start Time: 2024-01-01T19:00\<newline>Channel: ESPN\<newline>Quarter Scores: Q1: 25-20\<newline>''"
  have a: "\<not> env_missing (getenv (publish_world outcome) ''NBA_API_KEY'')"
    and b: "\<not> env_missing (getenv (publish_world outcome) ''SNS_TOPIC_ARN'')"
    and c: "urlopen_read (publish_world outcome)
              (api_url (today_date (utc_now (publish_world outcome)))
                 (env_str (getenv (publish_world outcome) ''NBA_API_KEY''))) = Inr ''[{...}]''"
    and d: "json_loads (publish_world outcome) ''[{...}]'' = Inr (JArr [JObj final_game])"
    and arn: "''arn:aws:sns:us-east-1:123456789012:gd_topic'' =
                env_str (getenv (publish_world outcome) ''SNS_TOPIC_ARN'')"
    and p: "sns_publish (publish_world outcome) x y z = outcome" for outcome x y z
    by (simp_all add: publish_world_def example_world_def example_env_def env_missing_def env_str_def)
  have e: "py_truthy (JArr [JObj final_game])"
    and f: "py_iter (JArr [JObj final_game]) = Inr [JObj final_game]"
    by (simp_all add: py_truthy_def py_iter_def)
  have "format_game_data (JObj final_game) = Inr ?msg"
    by (simp add: final_game_def eval_defs)
  then have g: "comprehension format_game_data [JObj final_game] = Inr [?msg]"
    by simp
  have m: "?msg = join ''\<newline>---\<newline>'' [?msg]" by simp
  note r = lambda_handler_reaches_publish [OF a b c d e f g arn m]
  show ?thesis
    by (simp add: r p py_getitem_def)
qed

text \<open>
  C10. An environment variable set to the empty string counts as absent: if the API key
  or the topic identifier is the empty string, the handler does exactly what it does with
  no environment at all, returns status 500 with the body
  \<^verbatim>\<open>Missing environment variables\<close>, and makes no HTTP request.
\<close>

theorem lambda_handler_config_empty:
  assumes "getenv w ''NBA_API_KEY'' = Some [] \<or> getenv w ''SNS_TOPIC_ARN'' = Some []"
  shows "lambda_handler w = lambda_handler (w\<lparr>getenv := (\<lambda>k. None)\<rparr>)
         \<and> snd (lambda_handler w) = Inr \<lparr>statusCode = 500, body = ''Missing environment variables''\<rparr>
         \<and> http_calls (fst (lambda_handler w)) = []"
  using assms unfolding lambda_handler_def env_missing_def
  by (auto simp: Let_def)

text \<open>C10 at the example world with the API key set to the empty string.\<close>

theorem lambda_handler_config_empty_witness:
  "(getenv (example_world\<lparr>getenv := example_env(''NBA_API_KEY'' := Some [])\<rparr>) ''NBA_API_KEY'' = Some []
     \<or> getenv (example_world\<lparr>getenv := example_env(''NBA_API_KEY'' := Some [])\<rparr>) ''SNS_TOPIC_ARN'' = Some [])
   \<and> lambda_handler (example_world\<lparr>getenv := example_env(''NBA_API_KEY'' := Some [])\<rparr>)
       = ([Print ''Error: Missing required environment variables.''],
          Inr \<lparr>statusCode = 500, body = ''Missing environment variables''\<rparr>)"
proof -
  let ?w = "example_world\<lparr>getenv := example_env(''NBA_API_KEY'' := Some [])\<rparr>"
  have h: "getenv ?w ''NBA_API_KEY'' = Some [] \<or> getenv ?w ''SNS_TOPIC_ARN'' = Some []"
    by simp
  have "lambda_handler (?w\<lparr>getenv := (\<lambda>k. None)\<rparr>)
       = ([Print ''Error: Missing required environment variables.''],
          Inr \<lparr>statusCode = 500, body = ''Missing environment variables''\<rparr>)"
    by (simp add: lambda_handler_def env_missing_def)
  with lambda_handler_config_empty [OF h] h show ?thesis by simp
qed

end
